theory Spec2Isabelle
  imports Complex_Main "HOL-Library.Word" "HOL-Library.Log_Nat"
begin

section \<open>The DancingTiles plugin (AuroraPlugin.cpp)\<close>

text \<open>
  The plugin is embedded function by function. The conventions:
  \<^item> C \<open>int\<close> values are HOL integers; \<open>uint32_t\<close>, \<open>int16_t\<close> and \<open>uint8_t\<close>
    values are words of that width, so unsigned arithmetic wraps as in C;
  \<^item> \<open>float\<close> and \<open>double\<close> values are real numbers (infinities and NaN are not
    represented). In \<open>addToRunningMax\<close>, whose result depends on it, every \<open>float\<close>
    operation is rounded to single precision (\<open>round_float\<close>); in the other functions
    the floating-point operations are the exact operations on reals. The conversion
    of a floating-point value to \<open>int\<close> truncates towards zero (\<open>to_int\<close>);
  \<^item> the file-level variables of the plugin are the fields of the record \<open>plugin\<close>,
    passed through every function that reads or writes them;
  \<^item> a read or write outside an array, and an array allocation of negative length,
    are values of the type \<open>fault\<close>.
\<close>

subsection \<open>Constants\<close>

definition BASE_COLOUR_R :: real where "BASE_COLOUR_R = 0"
definition BASE_COLOUR_G :: real where "BASE_COLOUR_G = 0"
definition BASE_COLOUR_B :: real where "BASE_COLOUR_B = 0"
definition ADJACENT_PANEL_DISTANCE :: real where "ADJACENT_PANEL_DISTANCE = 86.599995"
definition TRANSITION_TIME :: int where "TRANSITION_TIME = 1"
definition MINIMUM_INTENSITY :: real where "MINIMUM_INTENSITY = 0.2"
definition TRIGGER_THRESHOLD :: real where "TRIGGER_THRESHOLD = 0.7"
definition SPAWN_AMOUNT :: int where "SPAWN_AMOUNT = 1"
definition LIFESPAN :: int where "LIFESPAN = 1"
definition TEMPO_ENABLED :: bool where "TEMPO_ENABLED = False"
definition MININMUM_MULTIPLIER :: real where "MININMUM_MULTIPLIER = 1.5"
definition SKIP_COUNT :: int where "SKIP_COUNT = 50"

subsection \<open>Conversions\<close>

text \<open>The C conversion of a floating-point value to \<open>int\<close>: the fractional part is dropped.\<close>

definition to_int :: "real \<Rightarrow> int" where
  "to_int v = (if 0 \<le> v then \<lfloor>v\<rfloor> else \<lceil>v\<rceil>)"

subsection \<open>Single precision\<close>

text \<open>
  A \<open>float\<close> has a significand of 24 bits; every operation on \<open>float\<close> values (and the
  conversion of an \<open>int\<close> to \<open>float\<close>) returns the exact result rounded to the nearest
  such value, a tie going to the even significand. \<open>float_exponent v\<close> is the exponent
  of the leading bit of \<open>v\<close>, that is \<open>\<lfloor>log\<^sub>2 \<bar>v\<bar>\<rfloor>\<close>, computed from the bit length of an
  integer; the values of \<open>float\<close> next to \<open>v\<close> are the multiples of
  \<open>2 powi (float_exponent v - 23)\<close>. The range of the exponent is not limited: the
  operands below are \<open>int\<close> values and quotients of them, far inside the range of
  \<open>float\<close>.
\<close>

definition float_exponent :: "real \<Rightarrow> int" where
  "float_exponent v =
     (if 1 \<le> \<bar>v\<bar> then bitlen \<lfloor>\<bar>v\<bar>\<rfloor> - 1 else - bitlen (\<lceil>1 / \<bar>v\<bar>\<rceil> - 1))"

definition round_half_even :: "real \<Rightarrow> int" where
  "round_half_even v =
     (if v - of_int \<lfloor>v\<rfloor> < 1 / 2 then \<lfloor>v\<rfloor>
      else if v - of_int \<lfloor>v\<rfloor> > 1 / 2 then \<lfloor>v\<rfloor> + 1
      else if even \<lfloor>v\<rfloor> then \<lfloor>v\<rfloor> else \<lfloor>v\<rfloor> + 1)"

definition round_float :: "real \<Rightarrow> real" where
  "round_float v =
     (if v = 0 then 0
      else let ulp = 2 powi (float_exponent v - 23)
           in of_int (round_half_even (v / ulp)) * ulp)"

subsection \<open>The running maximum\<close>

text \<open>
  \<open>addToRunningMax\<close>: the trail is halved by the integer division \<open>trail / 2\<close>, taken
  only when \<open>effectiveTrail > 1\<close>, where C's truncating division and \<open>div\<close> agree. The
  \<open>return\<close> expression is evaluated in \<open>float\<close>: each \<open>int\<close> operand is converted to
  \<open>float\<close>, the two divisions, the subtraction and the addition are \<open>float\<close> operations,
  and the sum is converted to the \<open>int\<close> result. For \<open>effectiveTrail = 0\<close> the C code
  divides by zero; statements about the function exclude that input.
\<close>

definition addToRunningMax :: "int \<Rightarrow> int \<Rightarrow> int \<Rightarrow> int" where
  "addToRunningMax runningMax valueToAdd effectiveTrail =
     (let trail = (if valueToAdd > runningMax \<and> effectiveTrail > 1
                   then effectiveTrail div 2 else effectiveTrail);
          decay = round_float (round_float (real_of_int runningMax)
                               / round_float (real_of_int effectiveTrail));
          kept = round_float (round_float (real_of_int runningMax) - decay);
          gain = round_float (round_float (real_of_int valueToAdd)
                              / round_float (real_of_int trail))
      in to_int (round_float (kept + gain)))"

text \<open>
  The formula of the specification,
  \<open>current - current/effectiveTrail + sample/trail\<close> with \<open>trail = effectiveTrail / 2\<close>
  or \<open>effectiveTrail\<close>, in three readings: every division over the reals
  (\<open>spec_runningMax\<close>); every division an integer division (\<open>spec_runningMax_int\<close>); the
  trail halved by integer division, the two quotients over the reals and the value
  truncated towards zero (\<open>spec_runningMax_truncated\<close>).
\<close>

definition spec_trail :: "int \<Rightarrow> int \<Rightarrow> int \<Rightarrow> int" where
  "spec_trail current sample effectiveTrail =
     (if sample > current \<and> effectiveTrail > 1 then effectiveTrail div 2 else effectiveTrail)"

definition spec_runningMax :: "int \<Rightarrow> int \<Rightarrow> int \<Rightarrow> real" where
  "spec_runningMax current sample effectiveTrail =
     real_of_int current - real_of_int current / real_of_int effectiveTrail
       + real_of_int sample
         / (if sample > current \<and> effectiveTrail > 1 then real_of_int effectiveTrail / 2
            else real_of_int effectiveTrail)"

definition spec_runningMax_int :: "int \<Rightarrow> int \<Rightarrow> int \<Rightarrow> int" where
  "spec_runningMax_int current sample effectiveTrail =
     current - current div effectiveTrail
       + sample div spec_trail current sample effectiveTrail"

definition spec_runningMax_truncated :: "int \<Rightarrow> int \<Rightarrow> int \<Rightarrow> int" where
  "spec_runningMax_truncated current sample effectiveTrail =
     to_int (real_of_int current - real_of_int current / real_of_int effectiveTrail
               + real_of_int sample / real_of_int (spec_trail current sample effectiveTrail))"

subsection \<open>Frequency bins and the beat detector\<close>

type_synonym uint32_t = "32 word"
type_synonym int16_t = "16 word"
type_synonym uint8_t = "8 word"

record freq_bin =
  latest_minimum :: uint32_t
  soundPower :: uint32_t
  colour :: int16_t
  runningMax :: uint32_t
  runningMin :: uint32_t
  maximumTrigger :: uint32_t
  previousPower :: uint32_t
  secondPreviousPower :: uint32_t

text \<open>
  \<open>beat_detector(i)\<close> works on the bin \<open>freqBins[i]\<close> alone; the embedding takes that
  bin and returns it updated, with the \<open>int16_t\<close> result. The bin's fields are
  \<open>uint32_t\<close>: the sum and the quotient of the first test are unsigned and wrap,
  \<open>addToRunningMax\<close> receives the fields converted to \<open>int\<close> and its result is
  converted back (for powers in the byte range the result is far inside the range of
  \<open>int\<close>), and the beat criterion compares in \<open>double\<close>.
\<close>

definition beat_detector :: "freq_bin \<Rightarrow> freq_bin \<times> int16_t" where
  "beat_detector bin =
     (let bin1 = (if soundPower bin + runningMax bin div 4 < previousPower bin
                     \<and> previousPower bin > secondPreviousPower bin
                  then bin\<lparr>runningMax := word_of_int
                         (addToRunningMax (sint (runningMax bin)) (sint (previousPower bin)) 4)\<rparr>
                  else bin);
          bin2 = (if soundPower bin1 < latest_minimum bin1
                  then bin1\<lparr>latest_minimum := soundPower bin1\<rparr>
                  else if latest_minimum bin1 > 0
                  then bin1\<lparr>latest_minimum := latest_minimum bin1 - 1\<rparr>
                  else bin1);
          beat = (real (unat (soundPower bin2))
                    > real (unat (latest_minimum bin2))
                      + real (unat (runningMax bin2)) * TRIGGER_THRESHOLD);
          bin3 = (if beat then bin2\<lparr>latest_minimum := soundPower bin2\<rparr> else bin2);
          beat_detected = (if beat then 1 else 0)
      in (bin3\<lparr>secondPreviousPower := previousPower bin3,
                previousPower := soundPower bin3\<rparr>,
          beat_detected))"

text \<open>
  A bin whose sound power is \<open>latestMinimum + runningMax * 0.7 + 1\<close>. The power is
  held over the next tick by calling the detector again on the bin it returned: the
  detector never writes \<open>soundPower\<close>, and \<open>getPluginFrame\<close> would store the same byte again.
\<close>

definition held_above_threshold :: "freq_bin \<Rightarrow> bool" where
  "held_above_threshold bin \<longleftrightarrow>
     real (unat (soundPower bin))
       = real (unat (latest_minimum bin)) + real (unat (runningMax bin)) * TRIGGER_THRESHOLD + 1"

subsection \<open>Host data\<close>

text \<open>
  Modelled from the spec: the types \<open>Panel\<close> and \<open>LayoutData\<close> (declared in
  LayoutProcessingUtils.h), \<open>RGB_t\<close> (ColorUtils.h) and \<open>Frame_t\<close> (AuroraPlugin.h) are
  not among the sources. A panel is its identifier and the centroid of its shape; the
  layout is the fixed ordered sequence of panels, and \<open>nPanels\<close> is its length; a
  palette entry and a frame carry integer colour channels.
\<close>

record Panel =
  panelId :: int
  centroid_x :: real
  centroid_y :: real

record LayoutData =
  panels :: "Panel list"

definition nPanels :: "LayoutData \<Rightarrow> int" where
  "nPanels l = int (length (panels l))"

record RGB_t =
  rgb_R :: int
  rgb_G :: int
  rgb_B :: int

record Frame_t =
  frame_panelId :: int
  frame_r :: int
  frame_g :: int
  frame_b :: int
  frame_transTime :: int

subsection \<open>The state of the plugin\<close>

record source_t =
  src_x :: real
  src_y :: real
  src_R :: int
  src_G :: int
  src_B :: int
  src_age :: int

text \<open>
  The file-level variables. The array \<open>sources\<close> and its fill count \<open>nSources\<close> are
  the list of the first \<open>nSources\<close> entries of the array, in order: no function reads
  an entry at or beyond \<open>nSources\<close>. The counter \<open>cnt\<close> is the \<open>static\<close> local of
  \<open>getPluginFrame\<close>.
\<close>

record plugin =
  palettenColors :: "RGB_t list"
  nColors :: int
  layoutData :: LayoutData
  sources :: "source_t list"
  freqBins :: "freq_bin list"
  cnt :: int

datatype fault = OutOfBounds | BadArrayNewLength

definition nSources :: "plugin \<Rightarrow> int" where
  "nSources st = int (length (sources st))"

definition MAX_PALETTE_nColors :: "plugin \<Rightarrow> int" where
  "MAX_PALETTE_nColors st = nPanels (layoutData st) - 2"

definition MAX_SOURCES :: "plugin \<Rightarrow> int" where
  "MAX_SOURCES st = nPanels (layoutData st) * LIFESPAN"

subsection \<open>Initialisation\<close>

text \<open>
  \<open>initPlugin\<close> is called once, when the plugin is loaded, so it starts from the
  initial values of the file-level variables (\<open>nSources = 0\<close>, \<open>cnt = 0\<close>). Its
  arguments are what the host hands over: the layout (\<open>getLayoutData\<close>), the palette
  (\<open>getColorPalette\<close>, whose count is the length of the palette) and, since
  \<open>new freq_bin[...]\<close> leaves the bins uninitialised, the content \<open>fresh i\<close> that cell
  \<open>i\<close> of the new array happens to hold. The loop sets three fields of the first
  \<open>nColors\<close> bins. An array \<open>new\<close> of negative length does not return.
\<close>

definition initPlugin :: "LayoutData \<Rightarrow> RGB_t list \<Rightarrow> (nat \<Rightarrow> freq_bin) \<Rightarrow> fault + plugin" where
  "initPlugin host_layout host_palette fresh =
     (let st = \<lparr>palettenColors = host_palette, nColors = int (length host_palette),
                 layoutData = host_layout, sources = [], freqBins = [], cnt = 0\<rparr>;
          st = (if nColors st > MAX_PALETTE_nColors st
                then st\<lparr>nColors := MAX_PALETTE_nColors st\<rparr> else st)
      in if MAX_SOURCES st < 0 then Inl BadArrayNewLength
         else if MAX_PALETTE_nColors st < 0 then Inl BadArrayNewLength
         else Inr (st\<lparr>freqBins :=
                map (\<lambda>i. if int i < nColors st
                         then (fresh i)\<lparr>latest_minimum := 0, runningMax := 50,
                                        maximumTrigger := 1\<rparr>
                         else fresh i)
                    [0..<nat (MAX_PALETTE_nColors st)]\<rparr>))"

subsection \<open>The pool of light sources\<close>

text \<open>
  \<open>removeSource(idx)\<close> moves the \<open>nSources - idx - 1\<close> entries behind \<open>idx\<close> one place
  down and decrements \<open>nSources\<close>. Both calls in the plugin pass index 0 on a pool
  that their guards make non-empty.
\<close>

definition removeSource :: "nat \<Rightarrow> source_t list \<Rightarrow> source_t list" where
  "removeSource idx srcs = take idx srcs @ drop (Suc idx) srcs"

definition distance :: "real \<Rightarrow> real \<Rightarrow> real \<Rightarrow> real \<Rightarrow> real" where
  "distance x1 y1 x2 y2 =
     (let dx = x2 - x1; dy = y2 - y1 in sqrt (dx * dx + dy * dy))"

text \<open>
  \<open>addSource\<close>: the argument \<open>u\<close> is the value that \<open>drand48()\<close> returns to this
  call. The body of the spawn loop is written once (\<open>SPAWN_AMOUNT\<close> is 1).
\<close>

definition addSource :: "real \<Rightarrow> int \<Rightarrow> real \<Rightarrow> plugin \<Rightarrow> fault + plugin" where
  "addSource u paletteIndex intensity st =
     (if nPanels (layoutData st) < 2 then Inr st
      else
        let n1 = to_int (u * real_of_int (nPanels (layoutData st))) in
        if n1 < 0 \<or> nPanels (layoutData st) \<le> n1 then Inl OutOfBounds
        else if paletteIndex < 0 \<or> int (length (palettenColors st)) \<le> paletteIndex
        then Inl OutOfBounds
        else
          let x = centroid_x (panels (layoutData st) ! nat n1);
              y = centroid_y (panels (layoutData st) ! nat n1);
              R = to_int (real_of_int (rgb_R (palettenColors st ! nat paletteIndex)) * intensity);
              G = to_int (real_of_int (rgb_G (palettenColors st ! nat paletteIndex)) * intensity);
              B = to_int (real_of_int (rgb_B (palettenColors st ! nat paletteIndex)) * intensity);
              srcs = (if nSources st \<ge> MAX_SOURCES st
                      then removeSource 0 (sources st) else sources st)
          in Inr (st\<lparr>sources := srcs @
                [\<lparr>src_x = x, src_y = y, src_R = R, src_G = G, src_B = B, src_age = 0\<rparr>]\<rparr>))"

text \<open>
  The aging loop at the end of \<open>getPluginFrame\<close>:
  \<^verbatim>\<open>for(i = 0; i < nSources; i++) {
      if(sources[i].age == LIFESPAN) { removeSource(0); } else { sources[i].age++; } }\<close>
  The loop tests entry \<open>i\<close>, removes entry 0 and goes on to \<open>i + 1\<close>.
\<close>

function age_loop :: "nat \<Rightarrow> source_t list \<Rightarrow> source_t list" where
  "age_loop i srcs =
     (if i < length srcs
      then (if src_age (srcs ! i) = LIFESPAN
            then age_loop (i + 1) (removeSource 0 srcs)
            else age_loop (i + 1) (srcs[i := (srcs ! i)\<lparr>src_age := src_age (srcs ! i) + 1\<rparr>]))
      else srcs)"
  by pat_completeness auto
termination
  by (relation "measure (\<lambda>(i, srcs). length srcs - i)") (auto simp: removeSource_def)

declare age_loop.simps [simp del]

text \<open>
  Sequences of calls on the pool: a spawn (\<open>addSource\<close> with its random value, palette
  index and intensity) or one pass of the aging loop.
\<close>

datatype pool_call = Spawn real int real | Aging

definition pool_step :: "pool_call \<Rightarrow> plugin \<Rightarrow> fault + plugin" where
  "pool_step c st =
     (case c of
        Spawn u paletteIndex intensity \<Rightarrow> addSource u paletteIndex intensity st
      | Aging \<Rightarrow> Inr (st\<lparr>sources := age_loop 0 (sources st)\<rparr>))"

fun pool_run :: "pool_call list \<Rightarrow> plugin \<Rightarrow> fault + plugin" where
  "pool_run [] st = Inr st"
| "pool_run (c # cs) st =
     (case pool_step c st of Inl e \<Rightarrow> Inl e | Inr st' \<Rightarrow> pool_run cs st')"

text \<open>
  The calls that the plugin can make: \<open>drand48()\<close> returns a value in [0, 1), and the
  palette index is an index of the palette.
\<close>

definition valid_call :: "plugin \<Rightarrow> pool_call \<Rightarrow> bool" where
  "valid_call st c =
     (case c of
        Spawn u paletteIndex intensity \<Rightarrow>
          0 \<le> u \<and> u < 1 \<and> 0 \<le> paletteIndex
          \<and> paletteIndex < int (length (palettenColors st))
      | Aging \<Rightarrow> True)"

subsection \<open>Rendering\<close>

text \<open>
  The body of the loop of \<open>renderPanel\<close>, in two parts: \<open>falloff\<close> is the value of
  \<open>factor\<close> for one source (how much of its colour is mixed in), and \<open>mix_source\<close> mixes
  the source into the accumulator \<open>(R, G, B)\<close>.
\<close>

definition falloff :: "Panel \<Rightarrow> real \<Rightarrow> source_t \<Rightarrow> real" where
  "falloff panel tempo s =
     (let d = distance (centroid_x panel) (centroid_y panel) (src_x s) (src_y s);
          d = d / ADJACENT_PANEL_DISTANCE;
          d2 = d * d;
          multiplier = (if TEMPO_ENABLED then ln (tempo + 1) + MININMUM_MULTIPLIER
                        else MININMUM_MULTIPLIER)
      in 1 / (d2 * multiplier + 1))"

definition mix_source :: "Panel \<Rightarrow> real \<Rightarrow> real \<times> real \<times> real \<Rightarrow> source_t \<Rightarrow> real \<times> real \<times> real" where
  "mix_source panel tempo acc s =
     (case acc of (R, G, B) \<Rightarrow>
       let factor = falloff panel tempo s
       in (R * (1 - factor) + real_of_int (src_R s) * factor,
           G * (1 - factor) + real_of_int (src_G s) * factor,
           B * (1 - factor) + real_of_int (src_B s) * factor))"

text \<open>
  \<open>renderPanel\<close>: \<open>host_tempo\<close> is the value of \<open>getTempo()\<close>, \<open>srcs\<close> the pool; the
  result is the triple written through the three pointers.
\<close>

definition renderPanel :: "Panel \<Rightarrow> real \<Rightarrow> source_t list \<Rightarrow> int \<times> int \<times> int" where
  "renderPanel panel host_tempo srcs =
     (let tempo = host_tempo + 1 in
      case foldl (mix_source panel tempo) (BASE_COLOUR_R, BASE_COLOUR_G, BASE_COLOUR_B) srcs of
        (R, G, B) \<Rightarrow> (to_int R, to_int G, to_int B))"



subsection \<open>One frame\<close>

text \<open>
  The intensity that \<open>getPluginFrame\<close> computes for a bin on which a beat was detected
  (\<open>float intensity = 1.0; ...\<close> up to the clamp); \<open>log\<close> is the natural logarithm.
\<close>

definition beat_intensity :: "freq_bin \<Rightarrow> real" where
  "beat_intensity bin =
     (let intensity = 1;
          intensity = (if soundPower bin > 1 \<and> runningMax bin > 1
                       then (ln (real (unat (soundPower bin))) / ln (real (unat (runningMax bin))))
                              * (1 - MINIMUM_INTENSITY) + MINIMUM_INTENSITY
                       else intensity)
      in if intensity > 1 then 1 else intensity)"

text \<open>
  What the host supplies to one call of \<open>getPluginFrame\<close>: the bytes of \<open>getFftBins()\<close>,
  the value of \<open>getTempo()\<close>, and for each bin the value that \<open>drand48()\<close> returns
  when that bin spawns a source (a bin spawns at most one source in a call).
\<close>

record tick_input =
  fftBins :: "uint8_t list"
  draws :: "nat \<Rightarrow> real"
  host_tempo :: real

text \<open>The body of the loop over the bins, for bin \<open>i\<close>.\<close>

definition process_bin :: "tick_input \<Rightarrow> nat \<Rightarrow> plugin \<Rightarrow> fault + plugin" where
  "process_bin inp i st =
     (if length (freqBins st) \<le> i \<or> length (fftBins inp) \<le> i then Inl OutOfBounds
      else
        case beat_detector ((freqBins st ! i)\<lparr>soundPower := ucast (fftBins inp ! i)\<rparr>) of
          (bin, beat) \<Rightarrow>
            let beat_detected = (ucast beat :: uint8_t) in
            if beat_detected \<noteq> 0
            then
              let bin = (if soundPower bin > maximumTrigger bin
                         then bin\<lparr>maximumTrigger := soundPower bin\<rparr> else bin)
              in addSource (draws inp i) (int i) (beat_intensity bin)
                   (st\<lparr>freqBins := (freqBins st)[i := bin]\<rparr>)
            else Inr (st\<lparr>freqBins := (freqBins st)[i := bin]\<rparr>))"

fun bin_loop :: "tick_input \<Rightarrow> nat list \<Rightarrow> plugin \<Rightarrow> fault + plugin" where
  "bin_loop inp [] st = Inr st"
| "bin_loop inp (i # rest) st =
     (case process_bin inp i st of Inl e \<Rightarrow> Inl e | Inr st' \<Rightarrow> bin_loop inp rest st')"

text \<open>The loop over the panels: panel \<open>i\<close> is rendered into \<open>frames[i]\<close>.\<close>

fun render_loop :: "plugin \<Rightarrow> real \<Rightarrow> nat list \<Rightarrow> Frame_t list \<Rightarrow> fault + Frame_t list" where
  "render_loop st tempo [] frames = Inr frames"
| "render_loop st tempo (i # rest) frames =
     (if length frames \<le> i \<or> length (panels (layoutData st)) \<le> i then Inl OutOfBounds
      else
        case renderPanel (panels (layoutData st) ! i) tempo (sources st) of
          (R, G, B) \<Rightarrow>
            render_loop st tempo rest
              (frames[i := \<lparr>frame_panelId = panelId (panels (layoutData st) ! i),
                            frame_r = R, frame_g = G, frame_b = B,
                            frame_transTime = TRANSITION_TIME\<rparr>]))"

text \<open>
  \<open>getPluginFrame\<close>: the buffers behind the pointers \<open>frames\<close> and \<open>nFrames\<close> are passed
  in and returned (\<open>sleepTime\<close> is never touched).
\<close>

definition getPluginFrame ::
  "tick_input \<Rightarrow> plugin \<times> Frame_t list \<times> int \<Rightarrow> fault + plugin \<times> Frame_t list \<times> int" where
  "getPluginFrame inp arg =
     (case arg of (st, frames, nFrames) \<Rightarrow>
       if cnt st < SKIP_COUNT then Inr (st\<lparr>cnt := cnt st + 1\<rparr>, frames, nFrames)
       else
         case bin_loop inp [0..<nat (nColors st)] st of
           Inl e \<Rightarrow> Inl e
         | Inr st1 \<Rightarrow>
             (case render_loop st1 (host_tempo inp)
                     [0..<nat (nPanels (layoutData st1))] frames of
                Inl e \<Rightarrow> Inl e
              | Inr frames1 \<Rightarrow>
                  Inr (st1\<lparr>sources := age_loop 0 (sources st1)\<rparr>, frames1,
                       nPanels (layoutData st1))))"

text \<open>Successive calls of \<open>getPluginFrame\<close>, one host input per call.\<close>

fun run_frames ::
  "tick_input list \<Rightarrow> plugin \<times> Frame_t list \<times> int \<Rightarrow> fault + plugin \<times> Frame_t list \<times> int" where
  "run_frames [] arg = Inr arg"
| "run_frames (inp # rest) arg =
     (case getPluginFrame inp arg of Inl e \<Rightarrow> Inl e | Inr arg' \<Rightarrow> run_frames rest arg')"

subsection \<open>Example inputs\<close>

text \<open>A freshly seeded bin (\<open>runningMax = 50\<close>) that receives the power 36 = 0 + 50 * 0.7 + 1.\<close>

definition bin_seeded :: freq_bin where
  "bin_seeded = \<lparr>latest_minimum = 0, soundPower = 36, colour = 0, runningMax = 50,
     runningMin = 0, maximumTrigger = 1, previousPower = 0, secondPreviousPower = 0\<rparr>"

text \<open>A bin whose running maximum is 0 and that receives the power 1 = 0 + 0 * 0.7 + 1.\<close>

definition bin_flat :: freq_bin where
  "bin_flat = \<lparr>latest_minimum = 0, soundPower = 1, colour = 0, runningMax = 0,
     runningMin = 0, maximumTrigger = 1, previousPower = 0, secondPreviousPower = 0\<rparr>"

text \<open>
  \<open>initPlugin\<close> seeds three fields of a bin and leaves \<open>previousPower\<close> and
  \<open>secondPreviousPower\<close> as the allocation left them. Two seeded bins with such a stale
  \<open>previousPower\<close>: one receives the power 36 = 0 + 50 * 0.7 + 1 while \<open>previousPower\<close>
  holds 200; the other receives the power 0 while \<open>previousPower\<close> holds 4294967146,
  which is -150 as an \<open>int\<close>.
\<close>

definition bin_after_peak :: freq_bin where
  "bin_after_peak = \<lparr>latest_minimum = 0, soundPower = 36, colour = 0, runningMax = 50,
     runningMin = 0, maximumTrigger = 1, previousPower = 200, secondPreviousPower = 0\<rparr>"

definition bin_stale :: freq_bin where
  "bin_stale = \<lparr>latest_minimum = 0, soundPower = 0, colour = 0, runningMax = 50,
     runningMin = 0, maximumTrigger = 1, previousPower = 4294967146,
     secondPreviousPower = 0\<rparr>"

text \<open>A bin whose floor was snapped to 200 by a beat and that now receives the power 8.\<close>

definition bin_falling :: freq_bin where
  "bin_falling = \<lparr>latest_minimum = 200, soundPower = 8, colour = 0, runningMax = 50,
     runningMin = 0, maximumTrigger = 200, previousPower = 200, secondPreviousPower = 0\<rparr>"

text \<open>A layout of four panels with a palette of two colours, and a layout of one panel.\<close>

definition four_panels :: LayoutData where
  "four_panels = \<lparr>panels =
     [\<lparr>panelId = 10, centroid_x = 0, centroid_y = 0\<rparr>,
      \<lparr>panelId = 11, centroid_x = 100, centroid_y = 0\<rparr>,
      \<lparr>panelId = 12, centroid_x = 0, centroid_y = 100\<rparr>,
      \<lparr>panelId = 13, centroid_x = 100, centroid_y = 100\<rparr>]\<rparr>"

definition red_blue :: "RGB_t list" where
  "red_blue = [\<lparr>rgb_R = 255, rgb_G = 0, rgb_B = 0\<rparr>, \<lparr>rgb_R = 0, rgb_G = 0, rgb_B = 255\<rparr>]"

definition one_panel :: LayoutData where
  "one_panel = \<lparr>panels = [\<lparr>panelId = 10, centroid_x = 0, centroid_y = 0\<rparr>]\<rparr>"

text \<open>
  The plugin as \<open>initPlugin\<close> leaves it for four panels and two colours (seeded bins,
  empty pool), and a plugin on the layout of one panel.
\<close>

definition plugin_four :: plugin where
  "plugin_four = \<lparr>palettenColors = red_blue, nColors = 2, layoutData = four_panels,
     sources = [],
     freqBins = [bin_seeded, bin_seeded],
     cnt = 0\<rparr>"

definition plugin_one :: plugin where
  "plugin_one = \<lparr>palettenColors = red_blue, nColors = 2, layoutData = one_panel,
     sources = [], freqBins = [], cnt = 0\<rparr>"

text \<open>The sources that a spawn of red on panel 10 and a spawn of blue on panel 12 create.\<close>

definition red_source :: source_t where
  "red_source = \<lparr>src_x = 0, src_y = 0, src_R = 255, src_G = 0, src_B = 0, src_age = 0\<rparr>"

definition blue_source :: source_t where
  "blue_source = \<lparr>src_x = 0, src_y = 100, src_R = 0, src_G = 0, src_B = 255, src_age = 0\<rparr>"


text \<open>A host input with full power in two bins.\<close>

definition loud_input :: tick_input where
  "loud_input = \<lparr>fftBins = [255, 255], draws = (\<lambda>i. if i = 0 then 0 else 1/2), host_tempo = 0\<rparr>"

text \<open>
  The plugin \<open>plugin_four\<close> after the 50 skipped calls, and a frame buffer for its four
  panels.
\<close>

definition plugin_warm :: plugin where
  "plugin_warm = plugin_four\<lparr>cnt := 50\<rparr>"

definition blank_frames :: "Frame_t list" where
  "blank_frames = replicate 4
     \<lparr>frame_panelId = 0, frame_r = 0, frame_g = 0, frame_b = 0, frame_transTime = 0\<rparr>"

text \<open>A bin of \<open>plugin_warm\<close> after it has detected a beat at full power.\<close>

definition bin_loud :: freq_bin where
  "bin_loud = \<lparr>latest_minimum = 255, soundPower = 255, colour = 0, runningMax = 50,
     runningMin = 0, maximumTrigger = 255, previousPower = 255, secondPreviousPower = 0\<rparr>"

section \<open>Theorems\<close>

subsection \<open>Single precision\<close>

text \<open>
  \<open>float_exponent v\<close> is the exponent of the leading bit of \<open>v\<close>, and a value with a
  significand of at most 24 bits is not changed by the rounding.
\<close>

lemma float_exponent_lower:
  assumes "v \<noteq> 0"
  shows "2 powi float_exponent v \<le> \<bar>v\<bar>"
proof (cases "1 \<le> \<bar>v\<bar>")
  case True
  let ?n = "\<lfloor>\<bar>v\<bar>\<rfloor>"
  have n: "0 < ?n" using True by simp
  have b: "1 \<le> bitlen ?n" using n by (auto simp: bitlen_alt_def)
  have "(2::int) ^ nat (bitlen ?n - 1) \<le> ?n" using bitlen_bounds [OF n] by simp
  then have "real_of_int (2 ^ nat (bitlen ?n - 1)) \<le> real_of_int ?n" by (simp only: of_int_le_iff)
  also have "\<dots> \<le> \<bar>v\<bar>" by simp
  finally have "(2::real) ^ nat (bitlen ?n - 1) \<le> \<bar>v\<bar>" by simp
  moreover have "(2::real) powi (bitlen ?n - 1) = 2 ^ nat (bitlen ?n - 1)"
    using b by (simp add: power_int_nonneg_exp)
  ultimately show ?thesis using True by (simp add: float_exponent_def)
next
  case False
  let ?y = "1 / \<bar>v\<bar>"
  let ?n = "\<lceil>?y\<rceil> - 1"
  have v: "0 < \<bar>v\<bar>" "\<bar>v\<bar> < 1" using assms False by simp_all
  then have y: "1 < ?y" by simp
  then have n: "0 < ?n" by linarith
  have "?y \<le> real_of_int (?n + 1)" by simp
  also have "?n + 1 \<le> 2 ^ nat (bitlen ?n)" using bitlen_bounds [OF n] by simp
  finally have "?y \<le> 2 ^ nat (bitlen ?n)" by simp
  then have "1 / 2 ^ nat (bitlen ?n) \<le> \<bar>v\<bar>" using v(1)
    by (simp add: field_simps)
  moreover have "(2::real) powi (- bitlen ?n) = 1 / 2 ^ nat (bitlen ?n)"
  proof -
    have "- bitlen ?n = - int (nat (bitlen ?n))" using bitlen_nonneg [of ?n] by simp
    then show ?thesis by (simp only: power_int_minus power_int_of_nat) (simp add: divide_inverse)
  qed
  ultimately show ?thesis using False by (simp add: float_exponent_def)
qed

lemma float_exponent_upper:
  assumes "v \<noteq> 0"
  shows "\<bar>v\<bar> < 2 powi (float_exponent v + 1)"
proof (cases "1 \<le> \<bar>v\<bar>")
  case True
  let ?n = "\<lfloor>\<bar>v\<bar>\<rfloor>"
  have n: "0 < ?n" using True by simp
  have b: "1 \<le> bitlen ?n" using n by (auto simp: bitlen_alt_def)
  have "?n + 1 \<le> 2 ^ nat (bitlen ?n)" using bitlen_bounds [OF n] by simp
  then have "real_of_int (?n + 1) \<le> real_of_int (2 ^ nat (bitlen ?n))" by (simp only: of_int_le_iff)
  then have le: "real_of_int ?n + 1 \<le> 2 ^ nat (bitlen ?n)" by simp
  have lt: "\<bar>v\<bar> < real_of_int ?n + 1" by linarith
  have "\<bar>v\<bar> < 2 ^ nat (bitlen ?n)" using le lt by (rule less_le_trans [rotated])
  moreover have "(2::real) powi (bitlen ?n - 1 + 1) = 2 ^ nat (bitlen ?n)"
    using b by (simp add: power_int_nonneg_exp)
  ultimately show ?thesis using True by (simp add: float_exponent_def)
next
  case False
  let ?y = "1 / \<bar>v\<bar>"
  let ?n = "\<lceil>?y\<rceil> - 1"
  have v: "0 < \<bar>v\<bar>" "\<bar>v\<bar> < 1" using assms False by simp_all
  then have y: "1 < ?y" by simp
  then have n: "0 < ?n" by linarith
  have b: "1 \<le> bitlen ?n" using n by (auto simp: bitlen_alt_def)
  have "(2::int) ^ nat (bitlen ?n - 1) \<le> ?n" using bitlen_bounds [OF n] by simp
  then have "real_of_int (2 ^ nat (bitlen ?n - 1)) \<le> real_of_int ?n" by (simp only: of_int_le_iff)
  also have "real_of_int ?n < ?y" by linarith
  finally have "2 ^ nat (bitlen ?n - 1) < ?y" by simp
  then have "\<bar>v\<bar> < 1 / 2 ^ nat (bitlen ?n - 1)" using v(1)
    by (simp add: field_simps)
  moreover have "(2::real) powi (- bitlen ?n + 1) = 1 / 2 ^ nat (bitlen ?n - 1)"
  proof -
    have "- bitlen ?n + 1 = - int (nat (bitlen ?n - 1))" using b by simp
    then show ?thesis by (simp only: power_int_minus power_int_of_nat) (simp add: divide_inverse)
  qed
  ultimately show ?thesis using False by (simp add: float_exponent_def)
qed


lemma round_half_even_of_int: "round_half_even (of_int k) = k"
  by (simp add: round_half_even_def)

lemma round_float_exact:
  assumes v: "v = real_of_int m * 2 powi j" and m: "\<bar>m\<bar> < 2 ^ 24"
  shows "round_float v = v"
proof (cases "v = 0")
  case True
  then show ?thesis by (simp add: round_float_def)
next
  case False
  define E where "E = float_exponent v"
  have "2 powi E \<le> \<bar>v\<bar>" unfolding E_def using False by (rule float_exponent_lower)
  also have "\<bar>v\<bar> = real_of_int \<bar>m\<bar> * 2 powi j" by (simp add: v abs_mult power_int_abs)
  also have "\<dots> < 2 ^ 24 * 2 powi j"
  proof -
    have "real_of_int \<bar>m\<bar> < real_of_int (2 ^ 24)" using m by (simp only: of_int_less_iff)
    then show ?thesis by simp
  qed
  also have "\<dots> = 2 powi (24 + j)"
    using power_int_add [of "2::real" 24 j] by simp
  finally have lt: "(2::real) powi E < 2 powi (24 + j)" .
  have E: "E < 24 + j"
  proof (rule ccontr)
    assume "\<not> E < 24 + j"
    then have "24 + j \<le> E" by simp
    then have "(2::real) powi (24 + j) \<le> 2 powi E" by (rule power_int_increasing) simp
    with lt show False by simp
  qed
  define d where "d = nat (j - (E - 23))"
  define u :: real where "u = 2 powi (E - 23)"
  have u: "u \<noteq> 0" by (simp add: u_def)
  have j: "j = (E - 23) + int d" using E by (simp add: d_def)
  have "(2::real) powi (E - 23 + int d) = 2 powi (E - 23) * 2 powi (int d)"
    by (rule power_int_add) simp
  then have split: "(2::real) powi j = u * 2 ^ d"
    using j by (simp add: u_def)
  have vu: "v = real_of_int (m * 2 ^ d) * u" by (simp add: v split)
  have q: "v / u = real_of_int (m * 2 ^ d)" using u by (simp add: vu)
  have "round_float v = real_of_int (round_half_even (v / u)) * u"
    using False by (simp add: round_float_def Let_def u_def E_def)
  also have "\<dots> = real_of_int (m * 2 ^ d) * u"
    by (simp only: q round_half_even_of_int)
  also have "\<dots> = v" by (simp only: vu)
  finally show ?thesis .
qed

lemma round_float_of_int: "\<bar>m\<bar> < 2 ^ 24 \<Longrightarrow> round_float (real_of_int m) = real_of_int m"
  using round_float_exact [of "real_of_int m" m 0] by simp

lemma round_float_power2: "round_float (2 ^ k) = 2 ^ k"
  using round_float_exact [of "2 ^ k" 1 "int k"] by simp

lemma round_float_scaled:
  "\<bar>m\<bar> < 2 ^ 24 \<Longrightarrow> round_float (real_of_int m / 2 ^ k) = real_of_int m / 2 ^ k"
  using round_float_exact [of "real_of_int m / 2 ^ k" m "- int k"]
  by (simp add: power_int_minus divide_inverse)

subsection \<open>The running maximum\<close>


text \<open>
  When the trail is a power of two and \<open>(\<bar>current\<bar> + \<bar>sample\<bar>) * effectiveTrail\<close> is below
  \<open>2 ^ 24\<close>, every intermediate value of the \<open>return\<close> expression is a multiple of
  \<open>1 / effectiveTrail\<close> with a significand below \<open>2 ^ 24\<close>: no operation rounds.
\<close>

lemma float_sum_exact:
  fixes c s :: int and k n :: nat
  assumes nk: "n \<le> k" and small: "(\<bar>c\<bar> + \<bar>s\<bar>) * 2 ^ k < 2 ^ 24"
  shows "round_float
           (round_float (round_float (real_of_int c)
                         - round_float (round_float (real_of_int c) / round_float (2 ^ k)))
            + round_float (round_float (real_of_int s) / round_float (2 ^ n)))
         = real_of_int c - real_of_int c / 2 ^ k + real_of_int s / 2 ^ n"
proof -
  define p :: int where "p = 2 ^ k"
  define r :: int where "r = 2 ^ (k - n)"
  have p1: "1 \<le> p" by (simp add: p_def)
  have r1: "1 \<le> r" by (simp add: r_def)
  have rp: "r \<le> p" unfolding r_def p_def by (rule power_increasing) simp_all
  have small': "(\<bar>c\<bar> + \<bar>s\<bar>) * p < 2 ^ 24" using small by (simp add: p_def)
  have cp: "\<bar>c\<bar> * p \<le> (\<bar>c\<bar> + \<bar>s\<bar>) * p" using p1 by (simp add: distrib_right)
  have sp: "\<bar>s\<bar> * p \<le> (\<bar>c\<bar> + \<bar>s\<bar>) * p" using p1 by (simp add: distrib_right)
  have "\<bar>c\<bar> * 1 \<le> \<bar>c\<bar> * p" using p1 by (intro mult_left_mono) simp_all
  then have c: "\<bar>c\<bar> < 2 ^ 24" using cp small' by linarith
  have "\<bar>s\<bar> * 1 \<le> \<bar>s\<bar> * p" using p1 by (intro mult_left_mono) simp_all
  then have s: "\<bar>s\<bar> < 2 ^ 24" using sp small' by linarith
  define m1 where "m1 = c * (p - 1)"
  have "\<bar>m1\<bar> = \<bar>c\<bar> * (p - 1)" using p1 by (simp add: m1_def abs_mult)
  also have "\<dots> \<le> \<bar>c\<bar> * p" by (intro mult_left_mono) simp_all
  finally have m1: "\<bar>m1\<bar> < 2 ^ 24" using cp small' by linarith
  define m2 where "m2 = m1 + s * r"
  have "\<bar>s * r\<bar> = \<bar>s\<bar> * r" using r1 by (simp add: abs_mult)
  also have "\<dots> \<le> \<bar>s\<bar> * p" using rp by (intro mult_left_mono) simp_all
  finally have sr: "\<bar>s * r\<bar> \<le> \<bar>s\<bar> * p" .
  have "\<bar>m1\<bar> \<le> \<bar>c\<bar> * p"
    using \<open>\<bar>m1\<bar> = \<bar>c\<bar> * (p - 1)\<close> \<open>\<bar>c\<bar> * (p - 1) \<le> \<bar>c\<bar> * p\<close> by simp
  then have "\<bar>m2\<bar> \<le> \<bar>c\<bar> * p + \<bar>s\<bar> * p" unfolding m2_def using sr by linarith
  then have m2: "\<bar>m2\<bar> < 2 ^ 24" using small' by (simp add: distrib_right)
  have pk: "real_of_int p = 2 ^ k" by (simp add: p_def)
  have split: "(2::real) ^ k = 2 ^ n * real_of_int r"
    using nk by (simp add: r_def power_add [symmetric])
  have e1: "round_float (real_of_int c) = real_of_int c" using c by (rule round_float_of_int)
  have e2: "round_float (real_of_int s) = real_of_int s" using s by (rule round_float_of_int)
  have e3: "round_float (real_of_int c / 2 ^ k) = real_of_int c / 2 ^ k"
    using c by (rule round_float_scaled)
  have e4: "round_float (real_of_int s / 2 ^ n) = real_of_int s / 2 ^ n"
    using s by (rule round_float_scaled)
  have k1: "real_of_int c - real_of_int c / 2 ^ k = real_of_int m1 / 2 ^ k"
    by (simp add: m1_def pk field_simps)
  have e5: "round_float (real_of_int c - real_of_int c / 2 ^ k)
            = real_of_int c - real_of_int c / 2 ^ k"
    unfolding k1 using m1 by (rule round_float_scaled)
  have "real_of_int (s * r) / 2 ^ k = real_of_int s / 2 ^ n"
    using r1 by (simp add: split)
  then have k2: "real_of_int c - real_of_int c / 2 ^ k + real_of_int s / 2 ^ n
            = real_of_int m2 / 2 ^ k"
    unfolding k1 m2_def by (simp add: add_divide_distrib)
  have e6: "round_float (real_of_int c - real_of_int c / 2 ^ k + real_of_int s / 2 ^ n)
            = real_of_int c - real_of_int c / 2 ^ k + real_of_int s / 2 ^ n"
    unfolding k2 using m2 by (rule round_float_scaled)
  show ?thesis by (simp only: e1 e2 e3 e4 e5 e6 round_float_power2)
qed

lemma spec_trail_power2:
  assumes "effectiveTrail = 2 ^ k"
  shows "\<exists>n\<le>k. spec_trail current sample effectiveTrail = 2 ^ n"
proof (cases "sample > current \<and> effectiveTrail > 1")
  case True
  then have "k \<noteq> 0" using assms by (cases k) simp_all
  then obtain n where k: "k = Suc n" by (cases k) simp_all
  have "spec_trail current sample effectiveTrail = 2 ^ n"
    using True by (simp add: spec_trail_def assms k)
  then show ?thesis using k by auto
next
  case False
  then have "spec_trail current sample effectiveTrail = 2 ^ k"
    by (auto simp: spec_trail_def assms)
  then show ?thesis by auto
qed

lemma addToRunningMax_exact:
  assumes e: "effectiveTrail = 2 ^ k"
    and small: "(\<bar>current\<bar> + \<bar>sample\<bar>) * effectiveTrail < 2 ^ 24"
  shows "addToRunningMax current sample effectiveTrail
         = spec_runningMax_truncated current sample effectiveTrail"
proof -
  obtain n where n: "n \<le> k" and t: "spec_trail current sample effectiveTrail = 2 ^ n"
    using spec_trail_power2 [OF e] by blast
  have t': "spec_trail current sample (2 ^ k) = 2 ^ n" using t e by simp
  have "addToRunningMax current sample effectiveTrail
        = to_int (round_float
            (round_float (round_float (real_of_int current)
               - round_float (round_float (real_of_int current)
                              / round_float (real_of_int effectiveTrail)))
             + round_float (round_float (real_of_int sample)
                 / round_float (real_of_int (spec_trail current sample effectiveTrail)))))"
    by (simp add: addToRunningMax_def spec_trail_def Let_def)
  also have "\<dots> = to_int (real_of_int current - real_of_int current / 2 ^ k
                            + real_of_int sample / 2 ^ n)"
    using float_sum_exact [OF n, of current sample] small by (simp add: e t')
  also have "\<dots> = spec_runningMax_truncated current sample effectiveTrail"
    by (simp add: spec_runningMax_truncated_def e t')
  finally show ?thesis .
qed

lemma addToRunningMax_trail4:
  "(\<bar>current\<bar> + \<bar>sample\<bar>) * 4 < 2 ^ 24 \<Longrightarrow>
   addToRunningMax current sample 4 = spec_runningMax_truncated current sample 4"
  using addToRunningMax_exact [of 4 2 current sample] by simp

lemma addToRunningMax_thirds: "addToRunningMax 4 1 3 = 2"
  by code_simp

lemma addToRunningMax_tie: "addToRunningMax 16777218 0 4 = 12582914"
  by code_simp

lemma addToRunningMax_unit_trail: "addToRunningMax 0 3 3 = 3"
  by code_simp

lemma addToRunningMax_rounded: "addToRunningMax 8 2 3 = 5 \<and> addToRunningMax 33 5 7 = 28"
  by code_simp

text \<open>
  C4, as stated, fails: the function returns an \<open>int\<close> and computes in \<open>float\<close>. For the
  running maximum 50, the sample 100 and the trail 4 it returns 87, which is neither the
  value 87.5 of the formula over the reals nor the value 88 of the formula with integer
  divisions. For the running maximum 0, the sample 3 and the trail 3 it returns 3,
  because the halved trail is the integer 1 and not 1.5. Truncating the value of the
  formula does not give the result for all inputs either: for (4, 1, 3) the quotients
  4/3 and 1/3 are rounded to \<open>float\<close> and the sum falls just below 3, so the function
  returns 2 where the formula has the value 3; for (16777218, 0, 4) the difference
  12582913.5 is not a \<open>float\<close> and is rounded to 12582914.
\<close>

theorem addToRunningMax_not_formula:
  "real_of_int (addToRunningMax 50 100 4) \<noteq> spec_runningMax 50 100 4
   \<and> addToRunningMax 50 100 4 \<noteq> spec_runningMax_int 50 100 4
   \<and> addToRunningMax 50 100 4 = 87
   \<and> real_of_int (addToRunningMax 0 3 3) \<noteq> spec_runningMax 0 3 3
   \<and> addToRunningMax 0 3 3 = 3
   \<and> addToRunningMax 4 1 3 = 2
   \<and> spec_runningMax 4 1 3 = 3
   \<and> spec_runningMax_truncated 4 1 3 = 3
   \<and> addToRunningMax 16777218 0 4 = 12582914
   \<and> spec_runningMax_truncated 16777218 0 4 = 12582913"
  by (simp add: addToRunningMax_trail4 addToRunningMax_thirds addToRunningMax_tie
      addToRunningMax_unit_trail spec_runningMax_def spec_runningMax_int_def
      spec_runningMax_truncated_def spec_trail_def to_int_def)

text \<open>
  C4, amended: for every trail that is a power of two (the plugin's only trail is 4) and
  every running maximum and sample with
  \<open>(\<bar>current\<bar> + \<bar>sample\<bar>) * effectiveTrail < 2 ^ 24\<close>, \<open>addToRunningMax\<close> returns the value of
  \<open>current - current/effectiveTrail + sample/trail\<close>, computed with fractional
  divisions and then truncated towards zero, where \<open>trail\<close> is \<open>effectiveTrail / 2\<close> by
  integer division when \<open>sample > current\<close> and \<open>effectiveTrail > 1\<close>, and
  \<open>effectiveTrail\<close> otherwise; the trail is then not 0 either.
\<close>

theorem addToRunningMax_truncated_formula:
  assumes "effectiveTrail = 2 ^ k"
    and "(\<bar>current\<bar> + \<bar>sample\<bar>) * effectiveTrail < 2 ^ 24"
  shows "addToRunningMax current sample effectiveTrail
           = spec_runningMax_truncated current sample effectiveTrail
         \<and> spec_trail current sample effectiveTrail \<noteq> 0"
proof -
  obtain n where "spec_trail current sample effectiveTrail = 2 ^ n"
    using spec_trail_power2 [OF assms(1)] by blast
  then have "spec_trail current sample effectiveTrail \<noteq> 0" by simp
  then show ?thesis using addToRunningMax_exact [OF assms] by simp
qed

theorem addToRunningMax_truncated_formula_witness:
  "(4::int) = 2 ^ 2 \<and> (\<bar>50\<bar> + \<bar>100\<bar>) * (4::int) < 2 ^ 24
   \<and> addToRunningMax 50 100 4 = spec_runningMax_truncated 50 100 4
   \<and> spec_runningMax_truncated 50 100 4 = 87 \<and> spec_trail 50 100 4 = 2"
  using addToRunningMax_truncated_formula [of 4 2 50 100]
  by (simp add: spec_runningMax_truncated_def spec_trail_def to_int_def)

subsection \<open>The beat detector\<close>

lemma latest_minimum_after:
  "latest_minimum (fst (beat_detector bin)) = soundPower bin
   \<or> unat (latest_minimum (fst (beat_detector bin))) + 1 = unat (latest_minimum bin)
   \<or> latest_minimum (fst (beat_detector bin)) = latest_minimum bin"
  by (auto simp: beat_detector_def Let_def unat_gt_0 unat_minus_one)

text \<open>
  C5, as stated, fails: a sample below the floor snaps the floor down to the sample, by
  any amount. The bin \<open>bin_falling\<close> has the floor 200 and receives the power 8; the call
  leaves the floor at 8.
\<close>

theorem latest_minimum_falls_by_more_than_one:
  "latest_minimum bin_falling = 200
   \<and> latest_minimum (fst (beat_detector bin_falling)) = 8
   \<and> \<not> unat (latest_minimum bin_falling)
          - unat (latest_minimum (fst (beat_detector bin_falling))) \<le> 1"
  by (simp add: bin_falling_def beat_detector_def Let_def addToRunningMax_trail4
      spec_runningMax_truncated_def spec_trail_def to_int_def TRIGGER_THRESHOLD_def)

text \<open>
  C5, amended: across a single call of \<open>beat_detector\<close> on a bin, \<open>latestMinimum\<close>
  increases only by being set to the current \<open>soundPower\<close>, and when it decreases it
  either is set to the current \<open>soundPower\<close> (the sample was below the floor) or
  decreases by exactly 1.
\<close>

theorem latest_minimum_changes:
  "(latest_minimum bin < latest_minimum (fst (beat_detector bin))
      \<longrightarrow> latest_minimum (fst (beat_detector bin)) = soundPower bin)
   \<and> (latest_minimum (fst (beat_detector bin)) < latest_minimum bin
      \<longrightarrow> latest_minimum (fst (beat_detector bin)) = soundPower bin
          \<or> unat (latest_minimum (fst (beat_detector bin))) + 1 = unat (latest_minimum bin))"
  using latest_minimum_after [of bin] by (auto simp: word_less_nat_alt)

theorem latest_minimum_changes_witness:
  "latest_minimum bin_seeded < latest_minimum (fst (beat_detector bin_seeded))
   \<and> latest_minimum (fst (beat_detector bin_seeded)) = soundPower bin_seeded
   \<and> latest_minimum (fst (beat_detector bin_falling)) < latest_minimum bin_falling
   \<and> latest_minimum (fst (beat_detector bin_falling)) = soundPower bin_falling"
  using latest_minimum_changes [of bin_seeded] latest_minimum_changes [of bin_falling]
  by (simp add: bin_seeded_def bin_falling_def beat_detector_def Let_def
      addToRunningMax_trail4 spec_runningMax_truncated_def spec_trail_def to_int_def
      TRIGGER_THRESHOLD_def)

lemma held_above_threshold_nat:
  assumes "held_above_threshold bin"
  shows "10 * unat (soundPower bin)
         = 10 * unat (latest_minimum bin) + 7 * unat (runningMax bin) + 10"
proof -
  have "real (10 * unat (soundPower bin))
        = real (10 * unat (latest_minimum bin) + 7 * unat (runningMax bin) + 10)"
    using assms by (simp add: held_above_threshold_def TRIGGER_THRESHOLD_def)
  then show ?thesis by (simp only: of_nat_eq_iff)
qed

lemma threshold_exceeded:
  fixes S L M :: nat
  assumes "10 * S = 10 * L + 7 * M + 10"
  shows "real S > real (L - 1) + real M * TRIGGER_THRESHOLD"
    and "real S > real L + real M * TRIGGER_THRESHOLD"
proof -
  have "real (10 * S) = real (10 * L + 7 * M + 10)" using assms by simp
  then have e: "10 * real S = 10 * real L + 7 * real M + 10" by simp
  have l: "real (L - 1) \<le> real L" by simp
  show "real S > real L + real M * TRIGGER_THRESHOLD"
    using e by (simp add: TRIGGER_THRESHOLD_def)
  then show "real S > real (L - 1) + real M * TRIGGER_THRESHOLD"
    using l by linarith
qed

lemma threshold_not_exceeded:
  fixes S M :: nat
  assumes "2 \<le> M" "0 < S"
  shows "\<not> real S > real (S - 1) + real M * TRIGGER_THRESHOLD"
proof -
  have "real (S - 1) = real S - 1" using assms by (simp add: of_nat_diff)
  moreover have "2 \<le> real M" using assms by simp
  ultimately show ?thesis by (simp add: TRIGGER_THRESHOLD_def)
qed

text \<open>
  C2, as stated, fails in two ways. The bin \<open>bin_flat\<close> has the running maximum 0 and is
  held at the power 1 = 0 + 0 * 0.7 + 1: a beat is returned on the first call and again on
  the call that follows, because the floor has decayed by 1 and the threshold adds
  nothing. (A running maximum of 0 is what the detector itself computes for the seeded bin
  \<open>bin_stale\<close>.) The seeded bin \<open>bin_after_peak\<close> is held at 36 = 0 + 50 * 0.7 + 1 while its
  previous power is 200: the first call folds the 200 into the running maximum (137)
  before the criterion is tested, and returns no beat.
\<close>

theorem beat_refires_or_misses:
  "held_above_threshold bin_flat
   \<and> snd (beat_detector bin_flat) = 1
   \<and> snd (beat_detector (fst (beat_detector bin_flat))) = 1
   \<and> runningMax (fst (beat_detector bin_stale)) = 0
   \<and> held_above_threshold bin_after_peak
   \<and> runningMax (fst (beat_detector bin_after_peak)) = 137
   \<and> snd (beat_detector bin_after_peak) = 0"
  by (simp add: bin_flat_def bin_after_peak_def bin_stale_def held_above_threshold_def
      beat_detector_def Let_def addToRunningMax_trail4 spec_runningMax_truncated_def
      spec_trail_def to_int_def TRIGGER_THRESHOLD_def)

text \<open>
  C2, amended: take a bin whose running maximum is not 0, whose previous sample is not a
  local peak that the current sample has fallen away from (the running maximum is not
  updated on the first call), and whose sound power is a byte held constant at
  \<open>latestMinimum + runningMax * 0.7 + 1\<close>. Then \<open>beat_detector\<close> returns a beat on the
  first call and sets \<open>latestMinimum\<close> to \<open>soundPower\<close>, and it returns no beat on the
  call that follows.
\<close>

theorem beat_fires_once:
  assumes held: "held_above_threshold bin"
    and rm: "runningMax bin \<noteq> 0"
    and no_peak: "\<not> (soundPower bin + runningMax bin div 4 < previousPower bin
                    \<and> previousPower bin > secondPreviousPower bin)"
    and byte: "soundPower bin \<le> 255"
  shows "snd (beat_detector bin) = 1
    \<and> latest_minimum (fst (beat_detector bin)) = soundPower bin
    \<and> snd (beat_detector (fst (beat_detector bin))) = 0"
proof -
  let ?S = "unat (soundPower bin)" and ?L = "unat (latest_minimum bin)"
  let ?M = "unat (runningMax bin)"
  have eq: "10 * ?S = 10 * ?L + 7 * ?M + 10"
    using held by (rule held_above_threshold_nat)
  have M0: "?M \<noteq> 0" using rm by (simp add: unat_eq_0)
  have S255: "?S \<le> 255" using byte by (simp add: word_le_nat_alt)
  have M2: "2 \<le> ?M" using eq M0 by presburger
  have Mb: "?M < 400" using eq S255 by linarith
  have LS: "?L < ?S" using eq by linarith
  have sum: "unat (soundPower bin + runningMax bin div 4) = ?S + ?M div 4"
    using S255 Mb by (simp add: unat_word_ariths unat_div)
  have no_wrap: "\<not> soundPower bin + runningMax bin div 4 < soundPower bin"
    using sum by (simp add: word_less_nat_alt)
  have above: "\<not> soundPower bin < latest_minimum bin"
    using LS by (simp add: word_less_nat_alt)
  have Spos: "0 < soundPower bin"
    using LS by (simp add: word_greater_zero_iff unat_eq_0 [symmetric])
  have dec: "0 < latest_minimum bin \<Longrightarrow> unat (latest_minimum bin - 1) = ?L - 1"
    by (simp add: unat_minus_one word_greater_zero_iff)
  have decS: "unat (soundPower bin - 1) = ?S - 1"
    using Spos by (simp add: unat_minus_one word_greater_zero_iff)
  have fire: "real ?S > real (?L - 1) + real ?M * TRIGGER_THRESHOLD"
    "real ?S > real ?L + real ?M * TRIGGER_THRESHOLD"
    using threshold_exceeded [OF eq] by (simp_all del: of_nat_unat)
  have np: "(soundPower bin + runningMax bin div 4 < previousPower bin
              \<and> previousPower bin > secondPreviousPower bin) = False"
    using no_peak by simp
  have first: "beat_detector bin
      = (bin\<lparr>latest_minimum := soundPower bin, secondPreviousPower := previousPower bin,
              previousPower := soundPower bin\<rparr>, 1)"
    using above fire dec by (simp add: beat_detector_def Let_def np del: of_nat_unat)
  have nofire: "\<not> real ?S > real (?S - 1) + real ?M * TRIGGER_THRESHOLD"
  proof (rule threshold_not_exceeded [OF M2])
    show "0 < ?S" using LS by simp
  qed
  define bin' where "bin' = bin\<lparr>latest_minimum := soundPower bin,
      secondPreviousPower := previousPower bin, previousPower := soundPower bin\<rparr>"
  have "snd (beat_detector bin') = 0"
    using no_wrap Spos decS nofire
    by (simp add: bin'_def beat_detector_def Let_def del: of_nat_unat)
  then have second: "snd (beat_detector (fst (beat_detector bin))) = 0"
    by (simp add: first bin'_def)
  show ?thesis using first second by simp
qed

theorem beat_fires_once_witness:
  "held_above_threshold bin_seeded
   \<and> runningMax bin_seeded \<noteq> 0
   \<and> \<not> (soundPower bin_seeded + runningMax bin_seeded div 4 < previousPower bin_seeded
           \<and> previousPower bin_seeded > secondPreviousPower bin_seeded)
   \<and> soundPower bin_seeded \<le> 255
   \<and> snd (beat_detector bin_seeded) = 1
   \<and> latest_minimum (fst (beat_detector bin_seeded)) = 36
   \<and> snd (beat_detector (fst (beat_detector bin_seeded))) = 0"
proof -
  have h1: "held_above_threshold bin_seeded"
    by (simp add: bin_seeded_def held_above_threshold_def TRIGGER_THRESHOLD_def)
  have h2: "runningMax bin_seeded \<noteq> 0" by (simp add: bin_seeded_def)
  have h3: "\<not> (soundPower bin_seeded + runningMax bin_seeded div 4 < previousPower bin_seeded
                \<and> previousPower bin_seeded > secondPreviousPower bin_seeded)"
    by (simp add: bin_seeded_def)
  have h4: "soundPower bin_seeded \<le> 255" by (simp add: bin_seeded_def)
  have sp: "soundPower bin_seeded = 36" by (simp add: bin_seeded_def)
  show ?thesis using beat_fires_once [OF h1 h2 h3 h4] h1 h2 h3 h4 sp by simp
qed

subsection \<open>The pool of light sources\<close>

lemma length_age_loop: "length (age_loop i srcs) \<le> length srcs"
proof (induction i srcs rule: age_loop.induct)
  case (1 i srcs)
  show ?case
  proof (cases "i < length srcs")
    case True
    note lt = True
    show ?thesis
    proof (cases "src_age (srcs ! i) = LIFESPAN")
      case True
      have "length (age_loop (i + 1) (removeSource 0 srcs)) \<le> length (removeSource 0 srcs)"
        using "1.IH"(1) lt True by simp
      also have "\<dots> \<le> length srcs" by (simp add: removeSource_def)
      finally show ?thesis using lt True by (simp add: age_loop.simps [of i srcs])
    next
      case False
      then show ?thesis using "1.IH"(2) lt by (simp add: age_loop.simps [of i srcs])
    qed
  next
    case False
    then show ?thesis by (simp add: age_loop.simps [of i srcs])
  qed
qed

lemma addSource_bound:
  assumes "nSources st \<le> MAX_SOURCES st" and "addSource u p c st = Inr st'"
  shows "nSources st' \<le> MAX_SOURCES st' \<and> layoutData st' = layoutData st"
  using assms
  by (auto simp: addSource_def Let_def nSources_def MAX_SOURCES_def removeSource_def
      LIFESPAN_def nPanels_def split: if_splits)

lemma pool_step_bound:
  assumes "nSources st \<le> MAX_SOURCES st" and "pool_step c st = Inr st'"
  shows "nSources st' \<le> MAX_SOURCES st' \<and> layoutData st' = layoutData st"
proof (cases c)
  case (Spawn u p i)
  then show ?thesis using assms addSource_bound by (simp add: pool_step_def)
next
  case Aging
  then have "st' = st\<lparr>sources := age_loop 0 (sources st)\<rparr>"
    using assms by (auto simp add: pool_step_def)
  then show ?thesis using assms(1) length_age_loop [of 0 "sources st"]
    by (simp add: nSources_def MAX_SOURCES_def)
qed

lemma pool_run_bound:
  "nSources st \<le> MAX_SOURCES st \<Longrightarrow> pool_run cs st = Inr st'
   \<Longrightarrow> nSources st' \<le> MAX_SOURCES st' \<and> layoutData st' = layoutData st"
proof (induction cs arbitrary: st)
  case Nil
  then show ?case by simp
next
  case (Cons c cs)
  then obtain st1 where s1: "pool_step c st = Inr st1" and r: "pool_run cs st1 = Inr st'"
    by (auto split: sum.splits)
  from pool_step_bound [OF Cons.prems(1) s1] Cons.IH [OF _ r] show ?case by simp
qed

lemma addSource_at_capacity:
  assumes "2 \<le> nPanels (layoutData st)" and "nSources st = MAX_SOURCES st"
    and "addSource u p c st = Inr st'"
  shows "(\<exists>new. src_age new = 0 \<and> sources st' = removeSource 0 (sources st) @ [new])
    \<and> removeSource 0 (sources st) = tl (sources st)
    \<and> nSources st' = MAX_SOURCES st'"
  using assms
  by (auto simp: addSource_def Let_def nSources_def MAX_SOURCES_def removeSource_def
      LIFESPAN_def nPanels_def drop_Suc split: if_splits)

lemma draw_in_range:
  assumes "0 \<le> u" "u < 1" "2 \<le> n"
  shows "0 \<le> to_int (u * real_of_int n) \<and> to_int (u * real_of_int n) < n"
proof -
  have n: "0 < real_of_int n" using assms(3) by simp
  have nonneg: "0 \<le> u * real_of_int n" using assms(1) n by simp
  have below: "u * real_of_int n < real_of_int n" using assms(2) n by simp
  have "to_int (u * real_of_int n) = \<lfloor>u * real_of_int n\<rfloor>" using nonneg by (simp add: to_int_def)
  moreover have "0 \<le> \<lfloor>u * real_of_int n\<rfloor>" using nonneg by simp
  moreover have "\<lfloor>u * real_of_int n\<rfloor> < n" using below by (simp add: floor_less_iff)
  ultimately show ?thesis by simp
qed

lemma addSource_returns:
  assumes "valid_call st (Spawn u p c)"
  shows "\<exists>st'. addSource u p c st = Inr st' \<and> palettenColors st' = palettenColors st"
proof (cases "nPanels (layoutData st) < 2")
  case True
  then show ?thesis by (simp add: addSource_def)
next
  case False
  then have "2 \<le> nPanels (layoutData st)" by simp
  from draw_in_range [OF _ _ this, of u] assms
  have "0 \<le> to_int (u * real_of_int (nPanels (layoutData st)))"
    "to_int (u * real_of_int (nPanels (layoutData st))) < nPanels (layoutData st)"
    by (simp_all add: valid_call_def)
  then show ?thesis using False assms
    by (simp add: addSource_def Let_def valid_call_def)
qed

lemma pool_step_returns:
  assumes "valid_call st c"
  shows "\<exists>st'. pool_step c st = Inr st' \<and> palettenColors st' = palettenColors st"
proof (cases c)
  case (Spawn u p i)
  then show ?thesis using assms addSource_returns by (simp add: pool_step_def)
next
  case Aging
  then show ?thesis by (simp add: pool_step_def)
qed

lemma valid_call_palette:
  "palettenColors st' = palettenColors st \<Longrightarrow> valid_call st' c = valid_call st c"
  by (cases c) (simp_all add: valid_call_def)

lemma pool_run_returns:
  "\<forall>c\<in>set calls. valid_call st c \<Longrightarrow> \<exists>st'. pool_run calls st = Inr st'"
proof (induction calls arbitrary: st)
  case Nil
  then show ?case by simp
next
  case (Cons c calls)
  then have "valid_call st c" by simp
  from pool_step_returns [OF this] obtain st1 where
    s: "pool_step c st = Inr st1" and p: "palettenColors st1 = palettenColors st" by auto
  have "\<forall>c\<in>set calls. valid_call st1 c"
    using Cons.prems valid_call_palette [OF p] by simp
  from Cons.IH [OF this] show ?case using s by simp
qed

text \<open>
  C1: from an empty pool, every sequence of \<open>addSource\<close> calls and aging passes that
  the plugin can make returns, and after it the pool holds at most
  \<open>MAX_SOURCES = nPanels * LIFESPAN\<close> sources; and an \<open>addSource\<close> that spawns (the layout
  has at least two panels) on a pool that holds exactly \<open>MAX_SOURCES\<close> sources removes the
  source at index 0, appends the new source of age 0 and leaves the size at
  \<open>MAX_SOURCES\<close>.
\<close>

theorem pool_never_exceeds_capacity:
  "(sources st0 = [] \<and> (\<forall>c\<in>set calls. valid_call st0 c)
      \<longrightarrow> (\<exists>st1. pool_run calls st0 = Inr st1))
   \<and> (sources st0 = [] \<and> pool_run calls st0 = Inr st1
      \<longrightarrow> nSources st1 \<le> MAX_SOURCES st1
          \<and> MAX_SOURCES st1 = nPanels (layoutData st0) * LIFESPAN)
   \<and> (2 \<le> nPanels (layoutData st) \<and> nSources st = MAX_SOURCES st
        \<and> addSource u paletteIndex intensity st = Inr st'
      \<longrightarrow> (\<exists>new. src_age new = 0 \<and> sources st' = removeSource 0 (sources st) @ [new])
          \<and> removeSource 0 (sources st) = tl (sources st)
          \<and> nSources st' = MAX_SOURCES st')"
proof (intro conjI impI)
  assume "sources st0 = [] \<and> (\<forall>c\<in>set calls. valid_call st0 c)"
  then have "\<forall>c\<in>set calls. valid_call st0 c" by simp
  then show "\<exists>st1. pool_run calls st0 = Inr st1" by (rule pool_run_returns)
next
  assume a: "sources st0 = [] \<and> pool_run calls st0 = Inr st1"
  then have "nSources st0 \<le> MAX_SOURCES st0"
    by (simp add: nSources_def MAX_SOURCES_def nPanels_def LIFESPAN_def)
  moreover have "pool_run calls st0 = Inr st1" using a by simp
  ultimately have b: "nSources st1 \<le> MAX_SOURCES st1 \<and> layoutData st1 = layoutData st0"
    by (rule pool_run_bound)
  then have b1: "nSources st1 \<le> MAX_SOURCES st1"
    and b2: "layoutData st1 = layoutData st0" by simp_all
  show "nSources st1 \<le> MAX_SOURCES st1" by (rule b1)
  show "MAX_SOURCES st1 = nPanels (layoutData st0) * LIFESPAN"
    by (simp add: MAX_SOURCES_def b2)
next
  assume "2 \<le> nPanels (layoutData st) \<and> nSources st = MAX_SOURCES st
        \<and> addSource u paletteIndex intensity st = Inr st'"
  then have b: "2 \<le> nPanels (layoutData st)" "nSources st = MAX_SOURCES st"
    "addSource u paletteIndex intensity st = Inr st'" by simp_all
  from addSource_at_capacity [OF b]
  show "\<exists>new. src_age new = 0 \<and> sources st' = removeSource 0 (sources st) @ [new]"
    and "removeSource 0 (sources st) = tl (sources st)"
    and "nSources st' = MAX_SOURCES st'" by blast+
qed

theorem pool_never_exceeds_capacity_witness:
  "sources plugin_four = []
   \<and> valid_call plugin_four (Spawn 0 0 1) \<and> valid_call plugin_four (Spawn (1/2) 1 1)
   \<and> valid_call plugin_four Aging
   \<and> pool_run [Spawn 0 0 1, Aging, Spawn (1/2) 1 1, Spawn 0 0 1, Spawn (1/2) 1 1, Spawn 0 0 1]
         plugin_four
       = Inr (plugin_four\<lparr>sources :=
           [blue_source, red_source, blue_source, red_source]\<rparr>)
   \<and> nSources (plugin_four\<lparr>sources := [blue_source, red_source, blue_source, red_source]\<rparr>)
       \<le> MAX_SOURCES (plugin_four\<lparr>sources := [blue_source, red_source, blue_source, red_source]\<rparr>)
   \<and> 2 \<le> nPanels (layoutData (plugin_four\<lparr>sources :=
           [red_source\<lparr>src_age := 1\<rparr>, blue_source, red_source, blue_source]\<rparr>))
   \<and> nSources (plugin_four\<lparr>sources :=
           [red_source\<lparr>src_age := 1\<rparr>, blue_source, red_source, blue_source]\<rparr>)
       = MAX_SOURCES (plugin_four\<lparr>sources :=
           [red_source\<lparr>src_age := 1\<rparr>, blue_source, red_source, blue_source]\<rparr>)
   \<and> addSource 0 0 1 (plugin_four\<lparr>sources :=
           [red_source\<lparr>src_age := 1\<rparr>, blue_source, red_source, blue_source]\<rparr>)
       = Inr (plugin_four\<lparr>sources := [blue_source, red_source, blue_source, red_source]\<rparr>)
   \<and> nSources (plugin_four\<lparr>sources := [blue_source, red_source, blue_source, red_source]\<rparr>)
       = MAX_SOURCES (plugin_four\<lparr>sources := [blue_source, red_source, blue_source, red_source]\<rparr>)"
proof -
  let ?calls = "[Spawn 0 0 1, Aging, Spawn (1/2) 1 1, Spawn 0 0 1, Spawn (1/2) 1 1, Spawn 0 0 1]"
  let ?full = "plugin_four\<lparr>sources :=
      [red_source\<lparr>src_age := 1\<rparr>, blue_source, red_source, blue_source]\<rparr>"
  let ?next = "plugin_four\<lparr>sources := [blue_source, red_source, blue_source, red_source]\<rparr>"
  have e: "sources plugin_four = []" by (simp add: plugin_four_def)
  have v: "valid_call plugin_four (Spawn 0 0 1)" "valid_call plugin_four (Spawn (1/2) 1 1)"
    "valid_call plugin_four Aging"
    by (simp_all add: valid_call_def plugin_four_def red_blue_def)
  then have all: "\<forall>c\<in>set ?calls. valid_call plugin_four c" by simp
  have r: "pool_run ?calls plugin_four = Inr ?next"
    by (simp add: pool_step_def addSource_def plugin_four_def four_panels_def red_blue_def
        nPanels_def to_int_def nSources_def MAX_SOURCES_def LIFESPAN_def Let_def
        red_source_def blue_source_def removeSource_def age_loop.simps)
  have p: "2 \<le> nPanels (layoutData ?full)"
    by (simp add: plugin_four_def four_panels_def nPanels_def)
  have f: "nSources ?full = MAX_SOURCES ?full"
    by (simp add: plugin_four_def four_panels_def nPanels_def nSources_def MAX_SOURCES_def
        LIFESPAN_def)
  have a: "addSource 0 0 1 ?full = Inr ?next"
    by (simp add: addSource_def plugin_four_def four_panels_def red_blue_def
        nPanels_def to_int_def nSources_def MAX_SOURCES_def LIFESPAN_def Let_def
        red_source_def blue_source_def removeSource_def)
  from pool_never_exceeds_capacity [of plugin_four ?calls ?next ?full 0 0 1 ?next]
    e v all r p f a
  show ?thesis by simp
qed

text \<open>
  The aging loop on the pool alone: two sources spawned before one pass have age 1 after
  it; the next pass removes the first of them and does not look at the second; only a
  third pass removes the second.
\<close>

lemma second_source_outlives_lifespan:
  "pool_run [Spawn 0 0 1, Spawn (1/2) 1 1, Aging] plugin_four
     = Inr (plugin_four\<lparr>sources := [red_source\<lparr>src_age := 1\<rparr>, blue_source\<lparr>src_age := 1\<rparr>]\<rparr>)
   \<and> pool_run [Spawn 0 0 1, Spawn (1/2) 1 1, Aging, Aging] plugin_four
     = Inr (plugin_four\<lparr>sources := [blue_source\<lparr>src_age := 1\<rparr>]\<rparr>)
   \<and> pool_run [Spawn 0 0 1, Spawn (1/2) 1 1, Aging, Aging, Aging] plugin_four
     = Inr plugin_four"
  by (simp add: pool_step_def addSource_def plugin_four_def four_panels_def red_blue_def
      nPanels_def to_int_def nSources_def MAX_SOURCES_def LIFESPAN_def Let_def
      red_source_def blue_source_def age_loop.simps removeSource_def)

text \<open>
  C8: when the layout has fewer than two panels, \<open>addSource\<close> returns with the state of
  the plugin unchanged, whatever the random value, the palette index and the intensity.
\<close>

theorem addSource_needs_two_panels:
  "nPanels (layoutData st) < 2 \<Longrightarrow> addSource u paletteIndex intensity st = Inr st"
  by (simp add: addSource_def)

theorem addSource_needs_two_panels_witness:
  "nPanels (layoutData plugin_one) < 2 \<and> addSource (1/2) 1 1 plugin_one = Inr plugin_one"
proof -
  have h: "nPanels (layoutData plugin_one) < 2"
    by (simp add: plugin_one_def one_panel_def nPanels_def)
  from addSource_needs_two_panels [OF h] h show ?thesis by simp
qed

subsection \<open>Initialisation\<close>

text \<open>
  C9 fails on the code. For a layout of at least two panels \<open>initPlugin\<close> does what
  the claim says (\<open>initPlugin_two_panels\<close>, \<open>no_colours_no_spawn\<close>). For a layout of one
  panel and a palette of no colours, \<open>MAX_PALETTE_nColors\<close> is -1: \<open>nColors\<close> is set to -1
  and \<open>new freq_bin[-1]\<close> does not return. \<open>addSource\<close> guards against fewer than two
  panels; \<open>initPlugin\<close> does not.
\<close>

theorem initPlugin_one_panel_fails:
  "initPlugin one_panel [] fresh = Inl BadArrayNewLength"
  by (simp add: initPlugin_def one_panel_def Let_def MAX_PALETTE_nColors_def MAX_SOURCES_def
      nPanels_def LIFESPAN_def)

lemma initPlugin_two_panels:
  assumes "2 \<le> nPanels host_layout"
  shows "\<exists>st. initPlugin host_layout host_palette fresh = Inr st
    \<and> nColors st = (if int (length host_palette) > nPanels host_layout - 2
                    then nPanels host_layout - 2 else int (length host_palette))
    \<and> layoutData st = host_layout \<and> palettenColors st = host_palette
    \<and> sources st = [] \<and> cnt st = 0
    \<and> int (length (freqBins st)) = nPanels host_layout - 2"
  using assms
  by (simp add: initPlugin_def Let_def MAX_PALETTE_nColors_def MAX_SOURCES_def LIFESPAN_def
      nPanels_def)

lemma no_colours_no_spawn:
  "nColors st \<le> 0 \<Longrightarrow> bin_loop inp [0..<nat (nColors st)] st = Inr st"
  by simp

lemma initPlugin_cnt: "initPlugin host_layout host_palette fresh = Inr st \<Longrightarrow> cnt st = 0"
  by (auto simp: initPlugin_def Let_def split: if_splits)

lemma skipped_frames:
  "cnt st + int (length inps) \<le> SKIP_COUNT \<Longrightarrow>
   run_frames inps (st, frames, nFrames)
     = Inr (st\<lparr>cnt := cnt st + int (length inps)\<rparr>, frames, nFrames)"
proof (induction inps arbitrary: st)
  case Nil
  then show ?case by simp
next
  case (Cons inp inps)
  have "cnt st < SKIP_COUNT" using Cons.prems by simp
  then have one: "getPluginFrame inp (st, frames, nFrames)
      = Inr (st\<lparr>cnt := cnt st + 1\<rparr>, frames, nFrames)"
    by (simp add: getPluginFrame_def)
  have "cnt (st\<lparr>cnt := cnt st + 1\<rparr>) + int (length inps) \<le> SKIP_COUNT"
    using Cons.prems by simp
  from Cons.IH [OF this] one show ?case by (simp add: add.assoc)
qed

text \<open>
  C10: each of the first 50 calls of \<open>getPluginFrame\<close> after \<open>initPlugin\<close> returns at
  once: after any number of calls up to 50, the buffers \<open>frames\<close> and \<open>nFrames\<close> hold what
  they held before, and the state of the plugin differs from the initialised state only
  in the counter \<open>cnt\<close>, which counts the calls.
\<close>

theorem first_frames_are_skipped:
  "initPlugin host_layout host_palette fresh = Inr st \<and> length inps \<le> 50
   \<longrightarrow> run_frames inps (st, frames, nFrames)
         = Inr (st\<lparr>cnt := int (length inps)\<rparr>, frames, nFrames)"
proof
  assume a: "initPlugin host_layout host_palette fresh = Inr st \<and> length inps \<le> 50"
  then have "initPlugin host_layout host_palette fresh = Inr st" by simp
  then have c: "cnt st = 0" by (rule initPlugin_cnt)
  then have "cnt st + int (length inps) \<le> SKIP_COUNT" using a by (simp add: SKIP_COUNT_def)
  from skipped_frames [OF this] c show "run_frames inps (st, frames, nFrames)
         = Inr (st\<lparr>cnt := int (length inps)\<rparr>, frames, nFrames)" by simp
qed

lemma initPlugin_four: "initPlugin four_panels red_blue (\<lambda>i. bin_seeded) = Inr plugin_four"
  by (simp add: initPlugin_def Let_def MAX_PALETTE_nColors_def MAX_SOURCES_def LIFESPAN_def
      nPanels_def four_panels_def red_blue_def plugin_four_def bin_seeded_def
      upt_rec [of 0 2] upt_rec [of 1 2] numeral_2_eq_2)

theorem first_frames_are_skipped_witness:
  "initPlugin four_panels red_blue (\<lambda>i. bin_seeded) = Inr plugin_four
   \<and> length (replicate 50 loud_input) \<le> 50
   \<and> run_frames (replicate 50 loud_input) (plugin_four, blank_frames, 0)
       = Inr (plugin_warm, blank_frames, 0)"
proof -
  have l: "length (replicate 50 loud_input) \<le> 50" by simp
  from first_frames_are_skipped [of four_panels red_blue "\<lambda>i. bin_seeded" plugin_four
      "replicate 50 loud_input" blank_frames 0] initPlugin_four l
  show ?thesis by (simp add: plugin_warm_def)
qed

subsection \<open>The intensity of a beat\<close>

text \<open>
  C7: the intensity computed for a beat is 1 whenever \<open>soundPower \<le> 1\<close> or
  \<open>runningMax \<le> 1\<close>; whenever both exceed 1 it is
  \<open>(log(soundPower) / log(runningMax)) * (1 - 0.2) + 0.2\<close> clamped to at most 1, and then
  lies between 0.2 and 1.
\<close>

theorem beat_intensity_value:
  "(soundPower bin \<le> 1 \<or> runningMax bin \<le> 1 \<longrightarrow> beat_intensity bin = 1)
   \<and> (soundPower bin > 1 \<and> runningMax bin > 1 \<longrightarrow>
        beat_intensity bin
          = min 1 ((ln (real (unat (soundPower bin))) / ln (real (unat (runningMax bin))))
                     * (1 - 0.2) + 0.2)
        \<and> 0.2 \<le> beat_intensity bin \<and> beat_intensity bin \<le> 1)"
proof (intro conjI impI)
  assume "soundPower bin \<le> 1 \<or> runningMax bin \<le> 1"
  then have ne: "(soundPower bin > 1 \<and> runningMax bin > 1) = False" by (auto simp: not_less)
  show "beat_intensity bin = 1" by (simp add: beat_intensity_def Let_def ne)
next
  assume a: "soundPower bin > 1 \<and> runningMax bin > 1"
  let ?v = "(ln (real (unat (soundPower bin))) / ln (real (unat (runningMax bin))))
              * (1 - 0.2) + 0.2"
  have "1 < unat (soundPower bin)" "1 < unat (runningMax bin)"
    using a by (simp_all add: word_less_nat_alt)
  then have "1 < real (unat (soundPower bin))" "1 < real (unat (runningMax bin))"
    by (simp_all del: of_nat_unat)
  then have "0 < ln (real (unat (soundPower bin)))" "0 < ln (real (unat (runningMax bin)))"
    by (simp_all del: of_nat_unat)
  then have pos: "0 \<le> ln (real (unat (soundPower bin))) / ln (real (unat (runningMax bin)))"
    by (simp del: of_nat_unat)
  have v: "beat_intensity bin = min 1 ?v"
    using a by (simp add: beat_intensity_def Let_def MINIMUM_INTENSITY_def min_def del: of_nat_unat)
  show "beat_intensity bin = min 1 ?v" by (rule v)
  have "0.2 \<le> ?v" using pos by (simp del: of_nat_unat)
  then show "0.2 \<le> beat_intensity bin" by (simp add: v del: of_nat_unat)
  show "beat_intensity bin \<le> 1" by (simp add: v del: of_nat_unat)
qed

theorem beat_intensity_value_witness:
  "(soundPower bin_flat \<le> 1 \<or> runningMax bin_flat \<le> 1) \<and> beat_intensity bin_flat = 1
   \<and> soundPower bin_seeded > 1 \<and> runningMax bin_seeded > 1
   \<and> beat_intensity bin_seeded = min 1 ((ln 36 / ln 50) * (1 - 0.2) + 0.2)
   \<and> 0.2 \<le> beat_intensity bin_seeded \<and> beat_intensity bin_seeded \<le> 1"
proof -
  have f: "soundPower bin_flat \<le> 1 \<or> runningMax bin_flat \<le> 1" by (simp add: bin_flat_def)
  have s: "soundPower bin_seeded > 1 \<and> runningMax bin_seeded > 1" by (simp add: bin_seeded_def)
  have u: "unat (soundPower bin_seeded) = 36" "unat (runningMax bin_seeded) = 50"
    by (simp_all add: bin_seeded_def)
  from beat_intensity_value [of bin_flat] beat_intensity_value [of bin_seeded] f s u
  show ?thesis by (simp del: of_nat_unat)
qed

subsection \<open>Rendering\<close>











subsection \<open>Two frames\<close>

lemma render_loop_returns:
  "\<forall>i\<in>set idx. i < length frames \<and> i < length (panels (layoutData st))
   \<Longrightarrow> \<exists>fr. render_loop st tempo idx frames = Inr fr \<and> length fr = length frames"
proof (induction idx arbitrary: frames)
  case Nil
  then show ?case by simp
next
  case (Cons i idx)
  obtain R G B where c: "renderPanel (panels (layoutData st) ! i) tempo (sources st) = (R, G, B)"
    by (cases "renderPanel (panels (layoutData st) ! i) tempo (sources st)") auto
  let ?fr = "frames[i := \<lparr>frame_panelId = panelId (panels (layoutData st) ! i),
                        frame_r = R, frame_g = G, frame_b = B,
                        frame_transTime = TRANSITION_TIME\<rparr>]"
  have "\<forall>i\<in>set idx. i < length ?fr \<and> i < length (panels (layoutData st))"
    using Cons.prems by simp
  from Cons.IH [OF this] obtain fr where
    "render_loop st tempo idx ?fr = Inr fr" "length fr = length frames" by auto
  then show ?case using Cons.prems c by simp
qed

lemma getPluginFrame_active:
  assumes "\<not> cnt st < SKIP_COUNT"
    and "bin_loop inp [0..<nat (nColors st)] st = Inr st1"
    and "nPanels (layoutData st1) \<le> int (length frames)"
  shows "\<exists>fr. getPluginFrame inp (st, frames, nFrames)
           = Inr (st1\<lparr>sources := age_loop 0 (sources st1)\<rparr>, fr, nPanels (layoutData st1))
         \<and> length fr = length frames"
proof -
  have "\<forall>i\<in>set [0..<nat (nPanels (layoutData st1))].
          i < length frames \<and> i < length (panels (layoutData st1))"
    using assms(3) by (auto simp: nPanels_def)
  from render_loop_returns [OF this, of "host_tempo inp"] obtain fr where
    "render_loop st1 (host_tempo inp) [0..<nat (nPanels (layoutData st1))] frames = Inr fr"
    "length fr = length frames" by auto
  then show ?thesis using assms(1,2) by (simp add: getPluginFrame_def)
qed

lemma beat_intensity_full:
  assumes "soundPower bin = 255" "runningMax bin = 50"
  shows "beat_intensity bin = 1"
proof -
  define r :: real where "r = ln 255 / ln 50"
  have l: "ln (50::real) < ln 255" by simp
  have p: "0 < ln (50::real)" by simp
  have "1 < r" unfolding r_def using l p by (simp add: less_divide_eq)
  then have "1 < r * (1 - MINIMUM_INTENSITY) + MINIMUM_INTENSITY"
    by (simp add: MINIMUM_INTENSITY_def)
  then show ?thesis using assms
    by (simp add: beat_intensity_def Let_def r_def)
qed

lemma tick1_bins:
  "bin_loop loud_input [0..<nat (nColors plugin_warm)] plugin_warm
     = Inr (plugin_warm\<lparr>freqBins := [bin_loud, bin_loud],
                         sources := [red_source, blue_source]\<rparr>)"
proof -
  have idx: "[0..<nat (nColors plugin_warm)] = [0, 1]"
    by (simp add: plugin_warm_def plugin_four_def upt_rec [of 0 2] upt_rec [of 1 2]
        numeral_2_eq_2)
  have bd: "beat_detector (bin_seeded\<lparr>soundPower := 255\<rparr>)
      = (bin_loud\<lparr>maximumTrigger := 1\<rparr>, 1)"
    by (simp add: bin_seeded_def bin_loud_def beat_detector_def Let_def TRIGGER_THRESHOLD_def)
  have b0: "process_bin loud_input 0 plugin_warm
      = Inr (plugin_warm\<lparr>freqBins := [bin_loud, bin_seeded], sources := [red_source]\<rparr>)"
    by (simp add: process_bin_def loud_input_def plugin_warm_def plugin_four_def bd
        beat_intensity_full addSource_def four_panels_def red_blue_def nPanels_def
        nSources_def MAX_SOURCES_def LIFESPAN_def to_int_def Let_def bin_loud_def
        red_source_def)
  have b1: "process_bin loud_input (Suc 0)
        (plugin_warm\<lparr>freqBins := [bin_loud, bin_seeded], sources := [red_source]\<rparr>)
      = Inr (plugin_warm\<lparr>freqBins := [bin_loud, bin_loud],
                          sources := [red_source, blue_source]\<rparr>)"
    by (simp add: process_bin_def loud_input_def plugin_warm_def plugin_four_def bd
        beat_intensity_full addSource_def four_panels_def red_blue_def nPanels_def
        nSources_def MAX_SOURCES_def LIFESPAN_def to_int_def Let_def bin_loud_def
        red_source_def blue_source_def)
  show ?thesis by (simp add: idx b0 b1)
qed

lemma tick2_bins:
  "bin_loop loud_input [0..<nat (nColors plugin_warm)]
       (plugin_warm\<lparr>freqBins := [bin_loud, bin_loud], sources := srcs\<rparr>)
     = Inr (plugin_warm\<lparr>freqBins :=
              [bin_loud\<lparr>latest_minimum := 254, secondPreviousPower := 255\<rparr>,
               bin_loud\<lparr>latest_minimum := 254, secondPreviousPower := 255\<rparr>],
            sources := srcs\<rparr>)"
proof -
  have idx: "[0..<nat (nColors plugin_warm)] = [0, Suc 0]"
    by (simp add: plugin_warm_def plugin_four_def upt_rec [of 0 2] upt_rec [of 1 2]
        numeral_2_eq_2)
  have bd: "beat_detector (bin_loud\<lparr>soundPower := 255\<rparr>)
      = (bin_loud\<lparr>latest_minimum := 254, secondPreviousPower := 255\<rparr>, 0)"
    by (simp add: bin_loud_def beat_detector_def Let_def TRIGGER_THRESHOLD_def)
  let ?q = "bin_loud\<lparr>latest_minimum := 254, secondPreviousPower := 255\<rparr>"
  have b0: "process_bin loud_input 0
        (plugin_warm\<lparr>freqBins := [bin_loud, bin_loud], sources := srcs\<rparr>)
      = Inr (plugin_warm\<lparr>freqBins := [?q, bin_loud], sources := srcs\<rparr>)"
    by (simp add: process_bin_def loud_input_def plugin_warm_def plugin_four_def bd)
  have b1: "process_bin loud_input (Suc 0)
        (plugin_warm\<lparr>freqBins := [?q, bin_loud], sources := srcs\<rparr>)
      = Inr (plugin_warm\<lparr>freqBins := [?q, ?q], sources := srcs\<rparr>)"
    by (simp add: process_bin_def loud_input_def plugin_warm_def plugin_four_def bd)
  show ?thesis by (simp add: idx b0 b1)
qed

text \<open>
  C3 fails on the code. The plugin has four panels and two colours and has skipped its
  first 50 calls; the host delivers full power in both bins in two successive calls. In
  the first call (tick T) each bin detects a beat and spawns a source, and the aging loop
  brings both sources to age 1. In the second call (tick T + 1) no bin detects a beat; the
  aging loop finds age 1 at index 0, removes the source at index 0 and goes on to index 1,
  which is now beyond the one source left. The second source of tick T is still in the
  pool after tick T + \<open>LIFESPAN\<close>.
\<close>

theorem two_beats_then_silence:
  "\<exists>st1 frames1 st2 frames2.
     getPluginFrame loud_input (plugin_warm, blank_frames, 0) = Inr (st1, frames1, 4)
     \<and> sources st1 = [red_source\<lparr>src_age := 1\<rparr>, blue_source\<lparr>src_age := 1\<rparr>]
     \<and> getPluginFrame loud_input (st1, frames1, 4) = Inr (st2, frames2, 4)
     \<and> sources st2 = [blue_source\<lparr>src_age := 1\<rparr>]"
proof -
  let ?a = "plugin_warm\<lparr>freqBins := [bin_loud, bin_loud],
                        sources := [red_source, blue_source]\<rparr>"
  let ?aged = "[red_source\<lparr>src_age := 1\<rparr>, blue_source\<lparr>src_age := 1\<rparr>]"
  let ?st1 = "plugin_warm\<lparr>freqBins := [bin_loud, bin_loud], sources := ?aged\<rparr>"
  let ?b = "plugin_warm\<lparr>freqBins :=
              [bin_loud\<lparr>latest_minimum := 254, secondPreviousPower := 255\<rparr>,
               bin_loud\<lparr>latest_minimum := 254, secondPreviousPower := 255\<rparr>],
            sources := ?aged\<rparr>"
  have warm: "\<not> cnt plugin_warm < SKIP_COUNT" "nColors plugin_warm = 2"
    "nPanels (layoutData plugin_warm) = 4"
    by (simp_all add: plugin_warm_def plugin_four_def SKIP_COUNT_def four_panels_def nPanels_def)
  have age1: "age_loop 0 [red_source, blue_source] = ?aged"
    by (simp add: age_loop.simps red_source_def blue_source_def LIFESPAN_def)
  have age2: "age_loop 0 ?aged = [blue_source\<lparr>src_age := 1\<rparr>]"
    by (simp add: age_loop.simps red_source_def blue_source_def LIFESPAN_def removeSource_def)
  have "\<exists>fr. getPluginFrame loud_input (plugin_warm, blank_frames, 0)
           = Inr (?a\<lparr>sources := age_loop 0 (sources ?a)\<rparr>, fr, nPanels (layoutData ?a))
         \<and> length fr = length blank_frames"
    by (rule getPluginFrame_active [OF warm(1) tick1_bins]) (simp add: warm blank_frames_def)
  then obtain frames1 where
    t1: "getPluginFrame loud_input (plugin_warm, blank_frames, 0) = Inr (?st1, frames1, 4)"
    and l1: "length frames1 = 4"
    by (auto simp: age1 warm blank_frames_def)
  have "\<exists>fr. getPluginFrame loud_input (?st1, frames1, 4)
           = Inr (?b\<lparr>sources := age_loop 0 (sources ?b)\<rparr>, fr, nPanels (layoutData ?b))
         \<and> length fr = length frames1"
  proof (rule getPluginFrame_active)
    show "\<not> cnt ?st1 < SKIP_COUNT" using warm(1) by simp
    show "bin_loop loud_input [0..<nat (nColors ?st1)] ?st1 = Inr ?b"
      using tick2_bins [of ?aged] by simp
    show "nPanels (layoutData ?b) \<le> int (length frames1)" by (simp add: warm l1)
  qed
  then obtain frames2 where
    t2: "getPluginFrame loud_input (?st1, frames1, 4)
           = Inr (?b\<lparr>sources := [blue_source\<lparr>src_age := 1\<rparr>]\<rparr>, frames2, 4)"
    by (auto simp: age2 warm)
  show ?thesis using t1 t2 by (intro exI [of _ ?st1] exI [of _ frames1]
        exI [of _ "?b\<lparr>sources := [blue_source\<lparr>src_age := 1\<rparr>]\<rparr>"] exI [of _ frames2]) simp
qed

end
